theory Spec2Isabelle
  imports Main
begin

section \<open>The RPG player of \<open>rpg/player.py\<close>\<close>

subsection \<open>Data model\<close>

text \<open>
  A skill is a Python object that the player only refers to: the same object may be
  listed by a player, handed to \<open>upgrade_skill\<close> and changed behind the list. Skill
  objects therefore live in a store indexed by references, and the player's \<open>skills\<close>
  list holds references.
\<close>

type_synonym ref = nat

text \<open>
  Modelled from the spec: the class \<open>Skill\<close> is not part of \<open>player.py\<close>, which only
  reads the attributes \<open>class_id\<close>, \<open>max_level\<close>, \<open>upgrade_cost\<close>, \<open>downgrade_refund\<close>
  and reads and writes \<open>level\<close>. The spec lets the two costs depend on the current level
  of the skill, so they are functions of the level, applied to the level the skill has
  at the moment the attribute is read; a fixed cost is a constant function.
  \<open>max_level\<close> is \<open>None\<close> for a skill without upper bound.
\<close>

record skill =
  class_id :: string
  level :: int
  max_level :: "int option"
  upgrade_cost :: "int \<Rightarrow> int"
  downgrade_refund :: "int \<Rightarrow> int"

text \<open>
  The notifications sent through the managers of \<open>rpg.listeners\<close>, with their keyword
  arguments: \<open>OnPlayerLevelUp player levels credits\<close>, \<open>OnPlayerUpgradeSkill player skill\<close>
  and \<open>OnPlayerDowngradeSkill player skill\<close>. The player is named by its entity index.
\<close>

datatype notification =
    OnPlayerLevelUp nat int int
  | OnPlayerUpgradeSkill nat ref
  | OnPlayerDowngradeSkill nat ref

datatype error = ValueError | TypeError

text \<open>
  The state a method of \<open>Player\<close> runs in: the attributes \<open>_level\<close>, \<open>_xp\<close> and
  \<open>_credits\<close> of the player (here \<open>p_level\<close>, \<open>p_xp\<close>, \<open>p_credits\<close>), its \<open>skills\<close>
  list, the store of skill objects, and the notifications sent so far, oldest first.
\<close>

record state =
  index :: nat
  p_level :: int
  p_xp :: int
  p_credits :: int
  skills :: "ref list"
  heap :: "ref \<Rightarrow> skill"
  notified :: "notification list"

text \<open>\<open>Player(index)\<close> with the defaults of \<open>__init__\<close>, over a given store.\<close>

definition new_player :: "nat \<Rightarrow> (ref \<Rightarrow> skill) \<Rightarrow> state" where
  "new_player i h =
     \<lparr>index = i, p_level = 0, p_xp = 0, p_credits = 0, skills = [], heap = h, notified = []\<rparr>"

subsection \<open>Experience and levels\<close>

definition required_xp :: "state \<Rightarrow> int" where
  "required_xp s = 300 + 15 * p_level s"

text \<open>
  The \<open>while self.xp > self.required_xp\<close> loop of \<open>give_xp\<close>. It ends for every integer
  state: below level \<open>-19\<close> the level climbs, from there on the threshold is at least
  15 and the experience falls by it.
\<close>

function give_xp_loop :: "state \<Rightarrow> state" where
  "give_xp_loop s =
     (if p_xp s > required_xp s
      then give_xp_loop (s\<lparr>p_xp := p_xp s - required_xp s,
                           p_level := p_level s + 1,
                           p_credits := p_credits s + 5\<rparr>)
      else s)"
  by pat_completeness auto
termination
  by (relation "measures [\<lambda>s. nat (- 19 - p_level s), \<lambda>s. nat (p_xp s)]")
     (auto simp: required_xp_def)

declare give_xp_loop.simps [simp del]

definition give_xp :: "int \<Rightarrow> state \<Rightarrow> (error + unit) \<times> state" where
  "give_xp amount s =
     (if amount < 0 then (Inl ValueError, s)
      else
        let s1 = s\<lparr>p_xp := p_xp s + amount\<rparr>;
            initial_level = p_level s1;
            initial_credits = p_credits s1;
            s2 = give_xp_loop s1
        in if initial_level < p_level s2
           then (Inr (), s2\<lparr>notified := notified s2 @
                   [OnPlayerLevelUp (index s2) (initial_level - p_level s2)
                      (initial_credits - p_credits s2)]\<rparr>)
           else (Inr (), s2))"

text \<open>
  \<open>reset_rpg_progress\<close>: the three counters go to 0, then the loop
  \<open>for skill in self.skills: skill.level = 0\<close> writes through each reference in turn.
\<close>

fun reset_skill_levels :: "ref list \<Rightarrow> (ref \<Rightarrow> skill) \<Rightarrow> (ref \<Rightarrow> skill)" where
  "reset_skill_levels [] h = h"
| "reset_skill_levels (r # rs) h = reset_skill_levels rs (h(r := (h r)\<lparr>level := 0\<rparr>))"

definition reset_rpg_progress :: "state \<Rightarrow> state" where
  "reset_rpg_progress s =
     s\<lparr>p_level := 0, p_xp := 0, p_credits := 0,
       heap := reset_skill_levels (skills s) (heap s)\<rparr>"

subsection \<open>Upgrading and downgrading skills\<close>

text \<open>
  The argument \<open>skill\<close> is a reference. \<open>skill in self.skills\<close> compares objects, which
  for a class without \<open>__eq__\<close> is identity: membership of the reference in the list.
\<close>

definition can_upgrade_skill :: "ref \<Rightarrow> state \<Rightarrow> bool" where
  "can_upgrade_skill r s =
     (let sk = heap s r
      in r \<in> set (skills s) \<and> p_credits s \<ge> upgrade_cost sk (level sk) \<and>
         (case max_level sk of None \<Rightarrow> True | Some m \<Rightarrow> m > level sk))"

definition can_downgrade_skill :: "ref \<Rightarrow> state \<Rightarrow> bool" where
  "can_downgrade_skill r s = (r \<in> set (skills s) \<and> level (heap s r) > 0)"

definition upgrade_skill :: "ref \<Rightarrow> state \<Rightarrow> state" where
  "upgrade_skill r s =
     (if \<not> can_upgrade_skill r s then s
      else
        let sk = heap s r;
            s1 = s\<lparr>p_credits := p_credits s - upgrade_cost sk (level sk)\<rparr>;
            s2 = s1\<lparr>heap := (heap s1)(r := sk\<lparr>level := level sk + 1\<rparr>)\<rparr>
        in s2\<lparr>notified := notified s2 @ [OnPlayerUpgradeSkill (index s2) r]\<rparr>)"

definition downgrade_skill :: "ref \<Rightarrow> state \<Rightarrow> state" where
  "downgrade_skill r s =
     (if \<not> can_downgrade_skill r s then s
      else
        let sk = heap s r;
            s1 = s\<lparr>p_credits := p_credits s + downgrade_refund sk (level sk)\<rparr>;
            s2 = s1\<lparr>heap := (heap s1)(r := sk\<lparr>level := level sk - 1\<rparr>)\<rparr>
        in s2\<lparr>notified := notified s2 @ [OnPlayerDowngradeSkill (index s2) r]\<rparr>)"

subsection \<open>Skill callbacks and lookup\<close>

text \<open>
  \<open>event_args\<close> is the dictionary of the keyword arguments of the caller, a map from
  names to values. What a skill does in \<open>execute_callbacks\<close> is outside \<open>player.py\<close>;
  the model records each invocation: the skill, the event name and the keyword
  arguments it receives, and takes the invocation to return. A keyword argument is
  the player itself (\<open>player=self\<close>) or a value of the caller.
\<close>

datatype 'v arg = Self nat | Arg 'v

datatype 'v call = ExecuteCallbacks ref string "string \<rightharpoonup> 'v arg"

text \<open>
  The call \<open>skill.execute_callbacks(event_name, player=self, **event_args)\<close>. Its
  keyword arguments are \<open>player\<close> together with those of \<open>event_args\<close>. Python refuses
  a keyword given twice: when \<open>event_args\<close> has the key \<open>player\<close> the call raises
  \<open>TypeError\<close> before the skill is entered.
\<close>

definition merged_args :: "nat \<Rightarrow> (string \<rightharpoonup> 'v) \<Rightarrow> (string \<rightharpoonup> 'v arg)" where
  "merged_args self event_args = (\<lambda>k. map_option Arg (event_args k))(''player'' \<mapsto> Self self)"

definition execute_callbacks :: "ref \<Rightarrow> string \<Rightarrow> nat \<Rightarrow> (string \<rightharpoonup> 'v) \<Rightarrow> error + 'v call" where
  "execute_callbacks r event_name self event_args =
     (if event_args ''player'' \<noteq> None then Inl TypeError
      else Inr (ExecuteCallbacks r event_name (merged_args self event_args)))"

text \<open>
  The loop over \<open>self.skills\<close>; \<open>calls\<close> are the invocations made so far. An exception
  leaves the loop with the invocations already made.
\<close>

fun execute_skill_callbacks_loop ::
  "state \<Rightarrow> string \<Rightarrow> (string \<rightharpoonup> 'v) \<Rightarrow> ref list \<Rightarrow> 'v call list \<Rightarrow> (error + unit) \<times> 'v call list" where
  "execute_skill_callbacks_loop s event_name event_args [] calls = (Inr (), calls)"
| "execute_skill_callbacks_loop s event_name event_args (r # rs) calls =
     (if level (heap s r) > 0
      then (case execute_callbacks r event_name (index s) event_args of
              Inl e \<Rightarrow> (Inl e, calls)
            | Inr c \<Rightarrow> execute_skill_callbacks_loop s event_name event_args rs (calls @ [c]))
      else execute_skill_callbacks_loop s event_name event_args rs calls)"

text \<open>
  \<open>def execute_skill_callbacks(self, event_name, **event_args)\<close>, called with the event
  name and the keywords \<open>event_args\<close>. The parameters \<open>self\<close> and \<open>event_name\<close> are
  already bound by the call, so a keyword with one of these two names makes Python
  raise \<open>TypeError\<close> while it binds the arguments, before the body and its loop run.
\<close>

definition execute_skill_callbacks ::
  "string \<Rightarrow> (string \<rightharpoonup> 'v) \<Rightarrow> state \<Rightarrow> (error + unit) \<times> 'v call list" where
  "execute_skill_callbacks event_name event_args s =
     (if event_args ''self'' \<noteq> None \<or> event_args ''event_name'' \<noteq> None
      then (Inl TypeError, [])
      else execute_skill_callbacks_loop s event_name event_args (skills s) [])"

fun find_skill_loop :: "(ref \<Rightarrow> skill) \<Rightarrow> string \<Rightarrow> ref list \<Rightarrow> ref option" where
  "find_skill_loop h skill_id [] = None"
| "find_skill_loop h skill_id (r # rs) =
     (if class_id (h r) = skill_id then Some r else find_skill_loop h skill_id rs)"

definition find_skill :: "string \<Rightarrow> state \<Rightarrow> ref option" where
  "find_skill skill_id s = find_skill_loop (heap s) skill_id (skills s)"

subsection \<open>Example states\<close>

text \<open>A skill at level 0 that costs 3 credits to raise and gives 1 back, at most 2 levels.\<close>

definition ex_skill :: skill where
  "ex_skill = \<lparr>class_id = ''health'', level = 0, max_level = Some 2,
               upgrade_cost = (\<lambda>_. 3), downgrade_refund = (\<lambda>_. 1)\<rparr>"

text \<open>A fresh player with entity index 1 and no skills.\<close>

definition fresh :: state where
  "fresh = new_player 1 (\<lambda>_. ex_skill)"

text \<open>
  A player with 5 credits whose only skill is object 1; object 2 is a skill of another
  class that the player does not have.
\<close>

definition ex_heap :: "ref \<Rightarrow> skill" where
  "ex_heap = (\<lambda>_. ex_skill)(2 := ex_skill\<lparr>class_id := ''speed'', max_level := None\<rparr>)"

definition ex_player :: state where
  "ex_player = \<lparr>index = 1, p_level = 1, p_xp = 0, p_credits = 5, skills = [1],
                 heap = ex_heap, notified = []\<rparr>"

text \<open>The same player after two upgrades of skill 1 by other means, with both skills listed.\<close>

definition ex_leveled :: state where
  "ex_leveled = ex_player\<lparr>skills := [2, 1],
                          heap := ex_heap(1 := ex_skill\<lparr>level := 2\<rparr>)\<rparr>"

subsection \<open>Lemmas on the level-up loop\<close>

lemma give_xp_loop_step:
  "p_xp s > required_xp s \<Longrightarrow>
   give_xp_loop s = give_xp_loop (s\<lparr>p_xp := p_xp s - required_xp s,
                                    p_level := p_level s + 1,
                                    p_credits := p_credits s + 5\<rparr>)"
  by (subst give_xp_loop.simps) simp

lemma give_xp_loop_stop: "\<not> p_xp s > required_xp s \<Longrightarrow> give_xp_loop s = s"
  by (subst give_xp_loop.simps) simp


lemma give_xp_loop_bound: "p_xp (give_xp_loop s) \<le> required_xp (give_xp_loop s)"
proof (induction s rule: give_xp_loop.induct)
  case (1 s)
  show ?case
  proof (cases "p_xp s > required_xp s")
    case True
    with 1 show ?thesis by (simp add: give_xp_loop_step)
  next
    case False
    then show ?thesis by (simp add: give_xp_loop_stop)
  qed
qed

lemma give_xp_loop_frame:
  "index (give_xp_loop s) = index s \<and> skills (give_xp_loop s) = skills s \<and>
   heap (give_xp_loop s) = heap s \<and> notified (give_xp_loop s) = notified s"
proof (induction s rule: give_xp_loop.induct)
  case (1 s)
  show ?case
  proof (cases "p_xp s > required_xp s")
    case True
    with 1 show ?thesis by (simp add: give_xp_loop_step)
  next
    case False
    then show ?thesis by (simp add: give_xp_loop_stop)
  qed
qed

lemma give_xp_loop_gain:
  "p_level s \<le> p_level (give_xp_loop s) \<and>
   p_credits (give_xp_loop s) - p_credits s = 5 * (p_level (give_xp_loop s) - p_level s)"
proof (induction s rule: give_xp_loop.induct)
  case (1 s)
  show ?case
  proof (cases "p_xp s > required_xp s")
    case True
    with 1 show ?thesis by (simp add: give_xp_loop_step)
  next
    case False
    then show ?thesis by (simp add: give_xp_loop_stop)
  qed
qed

text \<open>
  What \<open>give_xp\<close> sends: nothing when the level stays, and otherwise one
  \<open>OnPlayerLevelUp\<close> whose \<open>levels\<close> and \<open>credits\<close> are the initial values minus the
  final ones, both below 0.
\<close>

lemma give_xp_notified:
  assumes "0 \<le> amount"
  shows "notified (snd (give_xp amount s)) =
           (if p_level s < p_level (snd (give_xp amount s))
            then notified s @
                   [OnPlayerLevelUp (index s) (p_level s - p_level (snd (give_xp amount s)))
                      (p_credits s - p_credits (snd (give_xp amount s)))]
            else notified s)"
  using assms give_xp_loop_frame [of "s\<lparr>p_xp := p_xp s + amount\<rparr>"]
  by (simp add: give_xp_def Let_def)

lemma give_xp_payload_negative:
  assumes "0 \<le> amount" and "p_level s < p_level (snd (give_xp amount s))"
  shows "p_level s - p_level (snd (give_xp amount s)) < 0 \<and>
         p_credits s - p_credits (snd (give_xp amount s)) < 0"
  using assms give_xp_loop_gain [of "s\<lparr>p_xp := p_xp s + amount\<rparr>"]
  by (simp add: give_xp_def Let_def split: if_splits)

lemma give_xp_returns: "0 \<le> amount \<Longrightarrow> fst (give_xp amount s) = Inr ()"
  by (simp add: give_xp_def Let_def)

lemma give_xp_bound:
  "0 \<le> amount \<Longrightarrow> p_xp (snd (give_xp amount s)) \<le> required_xp (snd (give_xp amount s))"
  using give_xp_loop_bound [of "s\<lparr>p_xp := p_xp s + amount\<rparr>"]
  by (simp add: give_xp_def Let_def required_xp_def)

lemma give_xp_300:
  assumes "p_level s = 0" and "p_xp s = 0" and "p_credits s = 0"
  shows "give_xp 300 s = (Inr (), s\<lparr>p_xp := 300\<rparr>)"
proof -
  let ?s1 = "s\<lparr>p_xp := p_xp s + 300\<rparr>"
  have "\<not> p_xp ?s1 > required_xp ?s1"
    using assms by (simp add: required_xp_def)
  then have "give_xp_loop ?s1 = ?s1"
    by (rule give_xp_loop_stop)
  then show ?thesis
    using assms by (simp add: give_xp_def Let_def)
qed

lemma give_xp_301:
  assumes "p_level s = 0" and "p_xp s = 0" and "p_credits s = 0"
  shows "give_xp 301 s =
           (Inr (), s\<lparr>p_xp := 1, p_level := 1, p_credits := 5,
                      notified := notified s @ [OnPlayerLevelUp (index s) (- 1) (- 5)]\<rparr>)"
proof -
  let ?s1 = "s\<lparr>p_xp := p_xp s + 301\<rparr>"
  let ?s2 = "s\<lparr>p_xp := 1, p_level := 1, p_credits := 5\<rparr>"
  have "give_xp_loop ?s1 = give_xp_loop ?s2"
    using assms by (subst give_xp_loop_step) (simp_all add: required_xp_def)
  also have "\<dots> = ?s2"
    by (rule give_xp_loop_stop) (simp add: required_xp_def)
  finally show ?thesis
    using assms by (simp add: give_xp_def Let_def)
qed

lemma give_xp_700:
  assumes "p_level s = 0" and "p_xp s = 0" and "p_credits s = 0"
  shows "give_xp 700 s =
           (Inr (), s\<lparr>p_xp := 85, p_level := 2, p_credits := 10,
                      notified := notified s @ [OnPlayerLevelUp (index s) (- 2) (- 10)]\<rparr>)"
proof -
  let ?s1 = "s\<lparr>p_xp := p_xp s + 700\<rparr>"
  let ?s2 = "s\<lparr>p_xp := 400, p_level := 1, p_credits := 5\<rparr>"
  let ?s3 = "s\<lparr>p_xp := 85, p_level := 2, p_credits := 10\<rparr>"
  have "give_xp_loop ?s1 = give_xp_loop ?s2"
    using assms by (subst give_xp_loop_step) (simp_all add: required_xp_def)
  also have "\<dots> = give_xp_loop ?s3"
    by (subst give_xp_loop_step) (simp_all add: required_xp_def)
  also have "\<dots> = ?s3"
    by (rule give_xp_loop_stop) (simp add: required_xp_def)
  finally show ?thesis
    using assms by (simp add: give_xp_def Let_def)
qed

lemma fresh_zero: "p_level fresh = 0 \<and> p_xp fresh = 0 \<and> p_credits fresh = 0"
  by (simp add: fresh_def new_player_def)


subsection \<open>Lemmas on the skill loops\<close>

lemma reset_skill_levels_eq:
  "reset_skill_levels rs h = (\<lambda>r. if r \<in> set rs then (h r)\<lparr>level := 0\<rparr> else h r)"
proof (induction rs arbitrary: h)
  case Nil
  show ?case by simp
next
  case (Cons a rs)
  show ?case unfolding reset_skill_levels.simps Cons.IH
    by (rule ext) simp
qed

lemma find_skill_loop_class_id:
  assumes "\<And>r. r \<in> set rs \<Longrightarrow> class_id (h' r) = class_id (h r)"
  shows "find_skill_loop h' skill_id rs = find_skill_loop h skill_id rs"
  using assms by (induction rs) simp_all

lemma find_skill_loop_Some:
  "find_skill_loop h skill_id rs = Some r \<Longrightarrow> r \<in> set rs \<and> class_id (h r) = skill_id"
  by (induction rs) (auto split: if_splits)

lemma find_skill_loop_finds:
  "r \<in> set rs \<Longrightarrow> \<exists>r'. find_skill_loop h (class_id (h r)) rs = Some r'"
  by (induction rs) auto

lemma execute_skill_callbacks_loop_ok:
  assumes "event_args ''player'' = None"
  shows "execute_skill_callbacks_loop s event_name event_args rs calls =
           (Inr (), calls @ map (\<lambda>r. ExecuteCallbacks r event_name (merged_args (index s) event_args))
                              (filter (\<lambda>r. level (heap s r) > 0) rs))"
  using assms
  by (induction rs arbitrary: calls) (simp_all add: execute_callbacks_def)

lemma execute_skill_callbacks_loop_raises:
  assumes "event_args ''player'' \<noteq> None"
  shows "execute_skill_callbacks_loop s event_name event_args rs calls =
           (if filter (\<lambda>r. level (heap s r) > 0) rs = [] then Inr () else Inl TypeError, calls)"
  using assms
  by (induction rs arbitrary: calls) (simp_all add: execute_callbacks_def)

section \<open>Properties of \<open>give_xp\<close>\<close>

text \<open>
  C1 (as stated): after \<open>give_xp amount\<close> with \<open>amount \<ge> 0\<close> the experience is strictly
  below \<open>required_xp\<close> of the final level. This fails: the loop runs while the experience
  is strictly greater than the threshold, so a fresh player given 300 points stays at
  level 0 with 300 points, which is the threshold of level 0.
\<close>

theorem give_xp_strict_bound_counterexample:
  "fst (give_xp 300 fresh) = Inr () \<and>
   \<not> p_xp (snd (give_xp 300 fresh)) < required_xp (snd (give_xp 300 fresh))"
  using give_xp_300 [of fresh] fresh_zero by (simp add: required_xp_def)

text \<open>
  C1 (amended): from every state and for every \<open>amount \<ge> 0\<close>, \<open>give_xp amount\<close> returns
  without an exception and leaves the experience at or below \<open>required_xp\<close> of the
  final level.
\<close>

theorem give_xp_settles:
  assumes "0 \<le> amount"
  shows "fst (give_xp amount s) = Inr () \<and>
         p_xp (snd (give_xp amount s)) \<le> required_xp (snd (give_xp amount s))"
  using assms give_xp_returns give_xp_bound by simp

theorem give_xp_settles_witness:
  "(0::int) \<le> 1000 \<and> fst (give_xp 1000 fresh) = Inr () \<and>
   p_xp (snd (give_xp 1000 fresh)) \<le> required_xp (snd (give_xp 1000 fresh))"
  using give_xp_settles [of 1000 fresh] by simp

text \<open>
  C2 (the code at the failing input): a fresh player given 301 points gains 1 level and
  5 credits, and the single \<open>OnPlayerLevelUp\<close> notification carries \<open>levels = -1\<close> and
  \<open>credits = -5\<close>: the source subtracts the final values from the initial ones.
\<close>

theorem give_xp_level_up_payload:
  "notified (snd (give_xp 301 fresh)) = [OnPlayerLevelUp 1 (- 1) (- 5)] \<and>
   p_level (snd (give_xp 301 fresh)) - p_level fresh = 1 \<and>
   p_credits (snd (give_xp 301 fresh)) - p_credits fresh = 5"
  using give_xp_301 [of fresh] fresh_zero by (simp add: fresh_def new_player_def)

text \<open>
  C3: from level 0, experience 0 and credits 0, \<open>give_xp 300\<close> only stores the 300 points
  (no level, no credits, no notification), while \<open>give_xp 301\<close> ends at level 1 with
  5 credits and 1 point of experience and sends \<open>OnPlayerLevelUp\<close> exactly once.
\<close>

theorem give_xp_threshold_is_strict:
  assumes "p_level s = 0" and "p_xp s = 0" and "p_credits s = 0"
  shows "give_xp 300 s = (Inr (), s\<lparr>p_xp := 300\<rparr>) \<and>
         give_xp 301 s =
           (Inr (), s\<lparr>p_xp := 1, p_level := 1, p_credits := 5,
                      notified := notified s @ [OnPlayerLevelUp (index s) (- 1) (- 5)]\<rparr>)"
  using assms give_xp_300 give_xp_301 by simp

theorem give_xp_threshold_is_strict_witness:
  "p_level fresh = 0 \<and> p_xp fresh = 0 \<and> p_credits fresh = 0 \<and>
   p_level (snd (give_xp 300 fresh)) = 0 \<and> p_xp (snd (give_xp 300 fresh)) = 300 \<and>
   p_credits (snd (give_xp 300 fresh)) = 0 \<and> notified (snd (give_xp 300 fresh)) = [] \<and>
   p_level (snd (give_xp 301 fresh)) = 1 \<and> p_xp (snd (give_xp 301 fresh)) = 1 \<and>
   p_credits (snd (give_xp 301 fresh)) = 5 \<and> length (notified (snd (give_xp 301 fresh))) = 1"
  using give_xp_threshold_is_strict [of fresh] by (simp add: fresh_def new_player_def)

text \<open>
  C4: for a negative \<open>amount\<close>, \<open>give_xp\<close> raises the error (\<open>ValueError\<close> in the source)
  and the state is the one before the call: level, experience, credits and everything
  else.
\<close>

theorem give_xp_negative:
  assumes "amount < 0"
  shows "give_xp amount s = (Inl ValueError, s)"
  using assms by (simp add: give_xp_def)

theorem give_xp_negative_witness:
  "(- 1 :: int) < 0 \<and> give_xp (- 1) fresh = (Inl ValueError, fresh)"
  using give_xp_negative [of "- 1" fresh] by simp

text \<open>
  C5: from level 0, experience 0 and credits 0, one call \<open>give_xp 700\<close> raises the level
  by 2 and the credits by 10 and appends one \<open>OnPlayerLevelUp\<close> notification for both
  levels together.
\<close>

theorem give_xp_two_levels:
  assumes "p_level s = 0" and "p_xp s = 0" and "p_credits s = 0"
  shows "p_level (snd (give_xp 700 s)) = p_level s + 2 \<and>
         p_credits (snd (give_xp 700 s)) = p_credits s + 10 \<and>
         (\<exists>levels credits. notified (snd (give_xp 700 s)) =
            notified s @ [OnPlayerLevelUp (index s) levels credits])"
  using assms give_xp_700 [of s] by simp

theorem give_xp_two_levels_witness:
  "p_level fresh = 0 \<and> p_xp fresh = 0 \<and> p_credits fresh = 0 \<and>
   p_level (snd (give_xp 700 fresh)) = 2 \<and> p_credits (snd (give_xp 700 fresh)) = 10 \<and>
   length (notified (snd (give_xp 700 fresh))) = 1"
  using give_xp_two_levels [of fresh] by (auto simp: fresh_def new_player_def)

text \<open>
  C10: from a state whose experience is at most \<open>required_xp\<close> of its level, and for
  \<open>amount \<ge> 0\<close>, the state after \<open>give_xp amount\<close> again has its experience at most
  \<open>required_xp\<close> of its level; the two are equal after \<open>give_xp 300\<close> on a fresh player.
\<close>

theorem give_xp_keeps_weak_bound:
  "(p_xp s \<le> required_xp s \<and> 0 \<le> amount \<longrightarrow>
      p_xp (snd (give_xp amount s)) \<le> required_xp (snd (give_xp amount s))) \<and>
   p_xp fresh \<le> required_xp fresh \<and>
   p_xp (snd (give_xp 300 fresh)) = required_xp (snd (give_xp 300 fresh))"
  using give_xp_bound [of amount s] give_xp_300 [of fresh] fresh_zero
  by (simp add: required_xp_def)

theorem give_xp_keeps_weak_bound_witness:
  "p_xp fresh \<le> required_xp fresh \<and> (0::int) \<le> 700 \<and>
   p_xp (snd (give_xp 700 fresh)) \<le> required_xp (snd (give_xp 700 fresh))"
  using give_xp_keeps_weak_bound [of fresh 700] by simp


section \<open>Properties of the skill operations\<close>

text \<open>
  C6: \<open>can_upgrade_skill\<close> is false exactly when the skill is not among the player's
  skills, or the credits are below its upgrade cost, or it has a \<open>max_level\<close> that is not
  greater than its level. When it is false, \<open>upgrade_skill\<close> returns the state it was
  given: credits, experience, level, every skill and the notifications are unchanged;
  and so does \<open>downgrade_skill\<close> when \<open>can_downgrade_skill\<close> is false. Neither method
  has a raising path.
\<close>

theorem refused_skill_change_is_noop:
  "(\<not> can_upgrade_skill r s \<longleftrightarrow>
      r \<notin> set (skills s) \<or> p_credits s < upgrade_cost (heap s r) (level (heap s r)) \<or>
      (\<exists>m. max_level (heap s r) = Some m \<and> \<not> m > level (heap s r))) \<and>
   (\<not> can_upgrade_skill r s \<longrightarrow> upgrade_skill r s = s) \<and>
   (\<not> can_downgrade_skill r s \<longrightarrow> downgrade_skill r s = s)"
  by (auto simp: can_upgrade_skill_def upgrade_skill_def downgrade_skill_def Let_def
           split: option.splits)

theorem refused_skill_change_is_noop_witness:
  "\<not> can_upgrade_skill 2 ex_player \<and> upgrade_skill 2 ex_player = ex_player \<and>
   \<not> can_downgrade_skill 1 ex_player \<and> downgrade_skill 1 ex_player = ex_player"
proof -
  have up: "\<not> can_upgrade_skill 2 ex_player"
    by (simp add: can_upgrade_skill_def ex_player_def)
  have down: "\<not> can_downgrade_skill 1 ex_player"
    by (simp add: can_downgrade_skill_def ex_player_def ex_heap_def ex_skill_def)
  show ?thesis
    using up down refused_skill_change_is_noop [of 2 ex_player]
      refused_skill_change_is_noop [of 1 ex_player]
    by simp
qed


text \<open>
  C7: in every state in which \<open>can_upgrade_skill\<close> holds (the level of the skill not
  negative, as the data model requires of every skill), \<open>upgrade_skill\<close> followed at
  once by \<open>downgrade_skill\<close> on the same skill restores the level of the skill, and
  indeed the whole store of skills, and the credits fall by
  \<open>upgrade_cost - downgrade_refund\<close> net, each amount as read by its call: the upgrade
  cost at the initial level, the refund at the raised level. The two amounts may differ.
\<close>

theorem upgrade_then_downgrade:
  assumes "can_upgrade_skill r s" and "0 \<le> level (heap s r)"
  shows "level (heap (downgrade_skill r (upgrade_skill r s)) r) = level (heap s r) \<and>
         heap (downgrade_skill r (upgrade_skill r s)) = heap s \<and>
         p_credits s - p_credits (downgrade_skill r (upgrade_skill r s)) =
           upgrade_cost (heap s r) (level (heap s r))
             - downgrade_refund (heap s r) (level (heap s r) + 1) \<and>
         p_credits (downgrade_skill r (upgrade_skill r s)) =
           p_credits s - upgrade_cost (heap s r) (level (heap s r))
                       + downgrade_refund (heap s r) (level (heap s r) + 1)"
proof -
  let ?u = "upgrade_skill r s"
  have in_skills: "r \<in> set (skills s)"
    using assms(1) by (simp add: can_upgrade_skill_def Let_def)
  have u: "?u = s\<lparr>p_credits := p_credits s - upgrade_cost (heap s r) (level (heap s r)),
                  heap := (heap s)(r := (heap s r)\<lparr>level := level (heap s r) + 1\<rparr>),
                  notified := notified s @ [OnPlayerUpgradeSkill (index s) r]\<rparr>"
    using assms(1) by (simp add: upgrade_skill_def Let_def)
  have "can_downgrade_skill r ?u"
    using in_skills assms(2) by (simp add: u can_downgrade_skill_def)
  then show ?thesis
    by (simp add: downgrade_skill_def Let_def u)
qed

theorem upgrade_then_downgrade_witness:
  "can_upgrade_skill 1 ex_player \<and> 0 \<le> level (heap ex_player 1) \<and>
   level (heap (downgrade_skill 1 (upgrade_skill 1 ex_player)) 1) = 0 \<and>
   p_credits ex_player = 5 \<and>
   p_credits (downgrade_skill 1 (upgrade_skill 1 ex_player)) = 3"
proof -
  have can: "can_upgrade_skill 1 ex_player"
    by (simp add: can_upgrade_skill_def ex_player_def ex_heap_def ex_skill_def)
  have lev: "0 \<le> level (heap ex_player 1)"
    by (simp add: ex_player_def ex_heap_def ex_skill_def)
  show ?thesis
    using can lev upgrade_then_downgrade [OF can lev]
    by (simp add: ex_player_def ex_heap_def ex_skill_def)
qed


text \<open>
  C8: \<open>reset_rpg_progress\<close> sets level, experience and credits to 0 and the level of
  every skill in \<open>skills\<close> to 0, sends no notification, and doing it twice is the same
  as doing it once. After it, \<open>find_skill\<close> with the \<open>class_id\<close> of any skill of the
  player returns a skill, the same one as before the reset, and its level is 0.
\<close>

theorem reset_rpg_progress_resets:
  "p_level (reset_rpg_progress s) = 0 \<and> p_xp (reset_rpg_progress s) = 0 \<and>
   p_credits (reset_rpg_progress s) = 0 \<and>
   (\<forall>r \<in> set (skills s). level (heap (reset_rpg_progress s) r) = 0) \<and>
   notified (reset_rpg_progress s) = notified s \<and>
   reset_rpg_progress (reset_rpg_progress s) = reset_rpg_progress s \<and>
   (\<forall>r \<in> set (skills s). \<exists>r'.
       find_skill (class_id (heap s r)) (reset_rpg_progress s) = Some r' \<and>
       find_skill (class_id (heap s r)) s = Some r' \<and>
       level (heap (reset_rpg_progress s) r') = 0)"
proof -
  let ?t = "reset_rpg_progress s"
  have heap_t: "heap ?t = (\<lambda>r. if r \<in> set (skills s) then (heap s r)\<lparr>level := 0\<rparr> else heap s r)"
    by (simp add: reset_rpg_progress_def reset_skill_levels_eq)
  have skills_t: "skills ?t = skills s"
    by (simp add: reset_rpg_progress_def)
  have counters: "p_level ?t = 0 \<and> p_xp ?t = 0 \<and> p_credits ?t = 0 \<and> notified ?t = notified s"
    by (simp add: reset_rpg_progress_def)
  have levels: "\<forall>r \<in> set (skills s). level (heap ?t r) = 0"
    by (simp add: heap_t)
  have twice: "reset_rpg_progress ?t = ?t"
  proof -
    have "reset_skill_levels (skills s) (reset_skill_levels (skills s) (heap s)) =
          reset_skill_levels (skills s) (heap s)"
      by (rule ext) (simp add: reset_skill_levels_eq)
    then show ?thesis by (simp add: reset_rpg_progress_def)
  qed
  have same_find: "find_skill skill_id ?t = find_skill skill_id s" for skill_id
    unfolding find_skill_def skills_t
    by (rule find_skill_loop_class_id) (simp add: heap_t)
  have found: "\<forall>r \<in> set (skills s). \<exists>r'.
       find_skill (class_id (heap s r)) ?t = Some r' \<and>
       find_skill (class_id (heap s r)) s = Some r' \<and> level (heap ?t r') = 0"
  proof
    fix r assume "r \<in> set (skills s)"
    then obtain r' where r': "find_skill (class_id (heap s r)) s = Some r'"
      unfolding find_skill_def using find_skill_loop_finds by fast
    then have "r' \<in> set (skills s)"
      unfolding find_skill_def by (simp add: find_skill_loop_Some)
    with levels have "level (heap ?t r') = 0" by simp
    with r' same_find show "\<exists>r'. find_skill (class_id (heap s r)) ?t = Some r' \<and>
       find_skill (class_id (heap s r)) s = Some r' \<and> level (heap ?t r') = 0"
      by simp
  qed
  from counters levels twice found show ?thesis by simp
qed

theorem reset_rpg_progress_resets_witness:
  "1 \<in> set (skills ex_leveled) \<and> level (heap ex_leveled 1) = 2 \<and>
   class_id (heap ex_leveled 1) = ''health'' \<and>
   find_skill ''health'' (reset_rpg_progress ex_leveled) = Some 1 \<and>
   level (heap (reset_rpg_progress ex_leveled) 1) = 0 \<and>
   p_credits ex_leveled = 5 \<and> p_credits (reset_rpg_progress ex_leveled) = 0"
  using reset_rpg_progress_resets [of ex_leveled]
  by (simp add: reset_rpg_progress_def find_skill_def ex_leveled_def ex_player_def
        ex_heap_def ex_skill_def)

text \<open>
  C9 (as stated): \<open>execute_skill_callbacks\<close> invokes the callbacks of exactly the skills
  whose level is above 0, for every \<open>event_args\<close>. This fails when \<open>event_args\<close> has
  one of the keys \<open>player\<close>, \<open>event_name\<close> or \<open>self\<close>: skill 1 of \<open>ex_leveled\<close> is at
  level 2, and each of the three calls raises \<open>TypeError\<close> without invoking it.
\<close>

theorem execute_skill_callbacks_counterexample:
  "1 \<in> set (skills ex_leveled) \<and> level (heap ex_leveled 1) > 0 \<and>
   execute_skill_callbacks ''player_hurt'' [''player'' \<mapsto> 7 :: int] ex_leveled =
     (Inl TypeError, []) \<and>
   execute_skill_callbacks ''player_hurt'' [''event_name'' \<mapsto> 7 :: int] ex_leveled =
     (Inl TypeError, []) \<and>
   execute_skill_callbacks ''player_hurt'' [''self'' \<mapsto> 7 :: int] ex_leveled =
     (Inl TypeError, [])"
  by (simp add: execute_skill_callbacks_def execute_callbacks_def ex_leveled_def
        ex_player_def ex_heap_def ex_skill_def)

text \<open>
  C9 (amended): when \<open>event_args\<close> has none of the keys \<open>player\<close>, \<open>event_name\<close> and
  \<open>self\<close>, \<open>execute_skill_callbacks\<close> returns normally, having invoked the callbacks of
  exactly the skills in \<open>skills\<close> whose level is above 0, in the order of the list, each
  with the event name and with \<open>player\<close> (the owning player) merged with \<open>event_args\<close>.
  When it has one of these keys, the call raises \<open>TypeError\<close> (for the key \<open>player\<close>
  only if some skill is above level 0) and no callback is invoked. For every
  \<open>event_args\<close>, each invocation made is for a skill of the list whose level is above 0.
\<close>

theorem execute_skill_callbacks_leveled:
  "(event_args ''player'' = None \<and> event_args ''event_name'' = None \<and>
    event_args ''self'' = None \<longrightarrow>
      execute_skill_callbacks event_name event_args s =
        (Inr (), map (\<lambda>r. ExecuteCallbacks r event_name (merged_args (index s) event_args))
                   (filter (\<lambda>r. level (heap s r) > 0) (skills s)))) \<and>
   (event_args ''player'' \<noteq> None \<or> event_args ''event_name'' \<noteq> None \<or>
    event_args ''self'' \<noteq> None \<longrightarrow>
      snd (execute_skill_callbacks event_name event_args s) = [] \<and>
      (fst (execute_skill_callbacks event_name event_args s) = Inl TypeError \<or>
       event_args ''event_name'' = None \<and> event_args ''self'' = None \<and>
       filter (\<lambda>r. level (heap s r) > 0) (skills s) = [])) \<and>
   (\<forall>c \<in> set (snd (execute_skill_callbacks event_name event_args s)).
      \<exists>r. c = ExecuteCallbacks r event_name (merged_args (index s) event_args) \<and>
          r \<in> set (skills s) \<and> level (heap s r) > 0)"
proof (cases "event_args ''event_name'' = None \<and> event_args ''self'' = None")
  case False
  then have "execute_skill_callbacks event_name event_args s = (Inl TypeError, [])"
    by (auto simp: execute_skill_callbacks_def)
  with False show ?thesis by auto
next
  case bound: True
  show ?thesis
  proof (cases "event_args ''player'' = None")
    case True
    with bound have "execute_skill_callbacks event_name event_args s =
          (Inr (), map (\<lambda>r. ExecuteCallbacks r event_name (merged_args (index s) event_args))
                     (filter (\<lambda>r. level (heap s r) > 0) (skills s)))"
      by (simp add: execute_skill_callbacks_def execute_skill_callbacks_loop_ok)
    with True bound show ?thesis by auto
  next
    case False
    with bound have "execute_skill_callbacks event_name event_args s =
          (if filter (\<lambda>r. level (heap s r) > 0) (skills s) = [] then Inr () else Inl TypeError, [])"
      by (simp add: execute_skill_callbacks_def execute_skill_callbacks_loop_raises)
    with False bound show ?thesis by auto
  qed
qed

theorem execute_skill_callbacks_leveled_witness:
  "[''damage'' \<mapsto> 10 :: int] ''player'' = None \<and>
   [''damage'' \<mapsto> 10 :: int] ''event_name'' = None \<and>
   [''damage'' \<mapsto> 10 :: int] ''self'' = None \<and>
   skills ex_leveled = [2, 1] \<and> level (heap ex_leveled 2) = 0 \<and>
   level (heap ex_leveled 1) = 2 \<and>
   execute_skill_callbacks ''player_hurt'' [''damage'' \<mapsto> 10 :: int] ex_leveled =
     (Inr (), [ExecuteCallbacks 1 ''player_hurt'' (merged_args 1 [''damage'' \<mapsto> 10])]) \<and>
   merged_args 1 [''damage'' \<mapsto> 10 :: int] ''player'' = Some (Self 1) \<and>
   merged_args 1 [''damage'' \<mapsto> 10 :: int] ''damage'' = Some (Arg 10) \<and>
   [''player'' \<mapsto> 7 :: int] ''player'' \<noteq> None \<and>
   execute_skill_callbacks ''player_hurt'' [''player'' \<mapsto> 7 :: int] ex_leveled =
     (Inl TypeError, [])"
proof -
  have ok: "execute_skill_callbacks ''player_hurt'' [''damage'' \<mapsto> 10 :: int] ex_leveled =
     (Inr (), [ExecuteCallbacks 1 ''player_hurt'' (merged_args 1 [''damage'' \<mapsto> 10])])"
    using execute_skill_callbacks_leveled
            [of "[''damage'' \<mapsto> 10 :: int]" "''player_hurt''" ex_leveled]
    by (simp add: ex_leveled_def ex_player_def ex_heap_def ex_skill_def)
  have bad: "execute_skill_callbacks ''player_hurt'' [''player'' \<mapsto> 7 :: int] ex_leveled =
     (Inl TypeError, [])"
    using execute_skill_callbacks_leveled
            [of "[''player'' \<mapsto> 7 :: int]" "''player_hurt''" ex_leveled]
    by (auto simp: prod_eq_iff ex_leveled_def ex_player_def ex_heap_def ex_skill_def)
  show ?thesis
    using ok bad
    by (simp add: merged_args_def ex_leveled_def ex_player_def ex_heap_def ex_skill_def)
qed

end
